theory Spec2Isabelle
  imports Complex_Main "HOL-Library.Multiset" "HOL-Library.Log_Nat"
begin

section \<open>Data model of the workout planner (src/app.js)\<close>

text \<open>
  The class \<open>WorkoutPlanner\<close> keeps three long-lived fields: \<open>workouts\<close> (an object
  with the keys push, pull and legs, each an array of exercise names), \<open>schedule\<close> (an
  object with the keys monday to saturday, each an array of exercise names) and
  \<open>progress\<close> (an array of completed workouts). Objects with a fixed key set are total
  functions on an enumeration of the keys; arrays are lists; names are strings.
  JavaScript numbers are doubles. A weight and a repetition count (the result of
  \<open>parseInt\<close>) are only stored and compared with 0, and are kept as the rational and the
  integer they denote; the arithmetic of the shuffle is modelled in double precision.
\<close>

datatype wtype = Push | Pull | Legs

datatype weekday = Monday | Tuesday | Wednesday | Thursday | Friday | Saturday

record logged_set =
  weight :: rat
  reps :: int

record exercise_log =
  name :: string
  sets :: "logged_set list"

record workout_record =
  day :: weekday
  date :: string
  exercises :: "exercise_log list"

text \<open>
  One row of the workout dialog (a \<open>.set-input\<close> element) holds a weight field and a
  repetitions field. The model keeps what \<open>parseFloat\<close> and \<open>parseInt\<close> return on the
  two field values; \<open>None\<close> stands for \<open>NaN\<close> (an empty or non-numeric field).
\<close>

record set_row =
  weight_input :: "rat option"
  reps_input :: "int option"

text \<open>
  The persisted item under the key \<open>workoutPlannerData\<close> is a text. The model keeps the
  text up to what \<open>JSON.parse\<close> makes of it: a text on which \<open>JSON.parse\<close> raises a
  \<open>SyntaxError\<close> (the empty text is one of them), the text \<open>null\<close>, or a text that parses
  to a value whose properties \<open>workouts\<close>, \<open>schedule\<close> and \<open>progress\<close> are either of the
  planner's shape or falsy (absent, \<open>null\<close>, \<open>false\<close>, \<open>0\<close> or the empty string), the
  latter written \<open>None\<close>. Objects and arrays, also empty ones, are truthy in JavaScript.
  \<open>JSON.stringify\<close> followed by \<open>JSON.parse\<close> is the identity on objects, arrays,
  strings and finite numbers, so the text written by \<open>saveData\<close> is represented by the
  object it was made from.
\<close>

record document =
  doc_workouts :: "(wtype \<Rightarrow> string list) option"
  doc_schedule :: "(weekday \<Rightarrow> string list) option"
  doc_progress :: "workout_record list option"

datatype stored_text = Unparsable string | ParsesToNull | ParsesTo document

datatype js_error = TypeError

text \<open>
  The planner together with the parts of the page it reads and writes: the storage item,
  the three exercise name fields, the workout dialog with one sets container per listed
  exercise, the alerts shown and the errors written to the console. A session is active
  while \<open>currentWorkoutDay\<close> is set; \<open>undefined\<close> and \<open>null\<close> are both \<open>None\<close>.
\<close>

record planner =
  workouts :: "wtype \<Rightarrow> string list"
  schedule :: "weekday \<Rightarrow> string list"
  progress :: "workout_record list"
  currentWorkoutDay :: "weekday option"
  currentWorkoutData :: "exercise_log list option"
  localStorage :: "stored_text option"
  exercise_input :: "wtype \<Rightarrow> string"
  modal_displayed :: bool
  modal_sets :: "set_row list list"
  alerts :: "string list"
  console :: "string list"

section \<open>Built-in operations used by the source\<close>

text \<open>
  \<open>String.prototype.trim\<close> strips white space and line terminators from both ends.
  Among the 8-bit characters these are TAB, LF, VT, FF, CR, SPACE and NBSP.
\<close>

definition js_whitespace :: "char \<Rightarrow> bool" where
  "js_whitespace c = (of_char c \<in> {9, 10, 11, 12, 13, 32, 160 :: nat})"

definition trim :: "string \<Rightarrow> string" where
  "trim s = rev (dropWhile js_whitespace (rev (dropWhile js_whitespace s)))"

text \<open>
  \<open>Array.prototype.splice(start, deleteCount)\<close> on an integer \<open>start\<close>: a negative start
  counts from the end and is clamped at 0, a start beyond the end is clamped at the
  length, and the delete count is clamped to the elements that remain.
\<close>

definition splice :: "int \<Rightarrow> int \<Rightarrow> 'a list \<Rightarrow> 'a list" where
  "splice start deleteCount xs =
     (let len = int (length xs);
          actualStart = (if start < 0 then max (len + start) 0 else min start len);
          actualDeleteCount = min (max deleteCount 0) (len - actualStart)
      in take (nat actualStart) xs @ drop (nat (actualStart + actualDeleteCount)) xs)"

text \<open>
  Double arithmetic. A finite double is the rational it denotes. \<open>ilog2 x\<close> is the
  binary exponent of a positive \<open>x\<close> (the integer \<open>e\<close> with \<open>2^e \<le> x < 2^(e+1)\<close>), and
  \<open>quantum x\<close> the distance between neighbouring doubles at \<open>x\<close>: 52 binary places below
  the exponent, which does not fall below that of the smallest normal number.
  \<open>binary64_round\<close> is the rounding of every IEEE 754 operation, to the nearest double,
  a tie going to the even significand. Values beyond the largest double do not occur.
\<close>

definition ilog2 :: "rat \<Rightarrow> int" where
  "ilog2 x = (if 1 \<le> x then bitlen \<lfloor>x\<rfloor> - 1 else - bitlen (\<lceil>1 / x\<rceil> - 1))"

definition quantum :: "rat \<Rightarrow> rat" where
  "quantum x = 2 powi (max (ilog2 x) (- 1022) - 52)"

definition round_half_even :: "rat \<Rightarrow> int" where
  "round_half_even y =
     (let f = \<lfloor>y\<rfloor>; d = y - of_int f
      in if d < 1 / 2 then f else if 1 / 2 < d then f + 1 else if even f then f else f + 1)"

definition binary64_round :: "rat \<Rightarrow> rat" where
  "binary64_round x =
     (if x = 0 then 0
      else sgn x * of_int (round_half_even (\<bar>x\<bar> / quantum \<bar>x\<bar>)) * quantum \<bar>x\<bar>)"

text \<open>A rational is a double when rounding leaves it as it is.\<close>

definition is_binary64 :: "rat \<Rightarrow> bool" where
  "is_binary64 x \<longleftrightarrow> binary64_round x = x"

section \<open>Persistence\<close>

text \<open>
  \<open>saveData\<close> overwrites the item with the text of the three fields. The storage is
  taken to accept every write; its quota and access errors are outside the model.
\<close>

definition saveData :: "planner \<Rightarrow> planner" where
  "saveData st =
     st\<lparr>localStorage := Some (ParsesTo
          \<lparr>doc_workouts = Some (workouts st),
           doc_schedule = Some (schedule st),
           doc_progress = Some (progress st)\<rparr>)\<rparr>"

definition default_workouts :: "wtype \<Rightarrow> string list" where
  "default_workouts t =
     (case t of
        Push \<Rightarrow> [''Bench Press'', ''Overhead Press'', ''Incline Dumbbell Press'',
                 ''Lateral Raises'', ''Tricep Dips'']
      | Pull \<Rightarrow> [''Pull-ups'', ''Barbell Rows'', ''Cable Rows'', ''Face Pulls'',
                 ''Barbell Curls'']
      | Legs \<Rightarrow> [''Squats'', ''Romanian Deadlifts'', ''Leg Press'', ''Leg Curls'',
                 ''Calf Raises''])"

text \<open>\<open>if (saved)\<close>: \<open>getItem\<close> returns \<open>null\<close> or a text, and only the empty text is falsy.\<close>

fun truthy_item :: "stored_text option \<Rightarrow> bool" where
  "truthy_item None = False"
| "truthy_item (Some (Unparsable s)) = (s \<noteq> [])"
| "truthy_item (Some ParsesToNull) = True"
| "truthy_item (Some (ParsesTo data)) = True"

text \<open>
  The \<open>try\<close> block: \<open>JSON.parse\<close> raises on an unparsable text, and reading
  \<open>data.workouts\<close> raises a \<open>TypeError\<close> when \<open>data\<close> is \<open>null\<close>; both happen before the
  first assignment, so the \<open>catch\<close> branch finds the fields as they were.
\<close>

definition loadData :: "planner \<Rightarrow> planner" where
  "loadData st =
     (if truthy_item (localStorage st) then
        (case localStorage st of
           Some (ParsesTo data) \<Rightarrow>
             st\<lparr>workouts := (case doc_workouts data of Some w \<Rightarrow> w | None \<Rightarrow> (\<lambda>t. [])),
                schedule := (case doc_schedule data of Some s \<Rightarrow> s | None \<Rightarrow> (\<lambda>d. [])),
                progress := (case doc_progress data of Some p \<Rightarrow> p | None \<Rightarrow> [])\<rparr>
         | _ \<Rightarrow> st\<lparr>console := console st @ [''Error loading data:'']\<rparr>)
      else saveData (st\<lparr>workouts := default_workouts\<rparr>))"

text \<open>
  The constructor sets the three fields to empty values and calls \<open>init\<close>, which loads
  the stored data (the listeners and the rendering only touch the page).
\<close>

definition constructed :: "stored_text option \<Rightarrow> planner" where
  "constructed item =
     \<lparr>workouts = (\<lambda>t. []), schedule = (\<lambda>d. []), progress = [],
      currentWorkoutDay = None, currentWorkoutData = None,
      localStorage = item, exercise_input = (\<lambda>t. []),
      modal_displayed = False, modal_sets = [], alerts = [], console = []\<rparr>"

definition init :: "planner \<Rightarrow> planner" where
  "init st = loadData st"

definition WorkoutPlanner :: "stored_text option \<Rightarrow> planner" where
  "WorkoutPlanner item = init (constructed item)"

text \<open>
  A stored text that does not parse to an object: \<open>JSON.parse\<close> raises, or yields \<open>null\<close>.
\<close>

definition malformed :: "stored_text \<Rightarrow> bool" where
  "malformed item =
     (case item of Unparsable s \<Rightarrow> True | ParsesToNull \<Rightarrow> True | ParsesTo data \<Rightarrow> False)"

section \<open>Schedule\<close>

fun getDayType :: "weekday \<Rightarrow> wtype" where
  "getDayType Monday = Push"
| "getDayType Tuesday = Pull"
| "getDayType Wednesday = Legs"
| "getDayType Thursday = Push"
| "getDayType Friday = Pull"
| "getDayType Saturday = Legs"

definition isScheduleValid :: "weekday \<Rightarrow> planner \<Rightarrow> bool" where
  "isScheduleValid d st =
     (let scheduleExercises = schedule st d;
          availableExercises = workouts st (getDayType d)
      in list_all (\<lambda>ex. ex \<in> set availableExercises) scheduleExercises \<and>
         length scheduleExercises = length availableExercises)"

text \<open>The body of the \<open>forEach\<close> in \<open>updateSchedule\<close>, for one day.\<close>

definition syncDay :: "weekday \<Rightarrow> planner \<Rightarrow> planner" where
  "syncDay d st =
     (if length (schedule st d) = 0 \<or> \<not> isScheduleValid d st
      then st\<lparr>schedule := (schedule st)(d := workouts st (getDayType d))\<rparr>
      else st)"

definition updateSchedule :: "planner \<Rightarrow> planner" where
  "updateSchedule st =
     fold syncDay [Monday, Tuesday, Wednesday, Thursday, Friday, Saturday] st"

text \<open>
  The shuffle loop \<open>for (let i = exercises.length - 1; i > 0; i--)\<close>. \<open>random k\<close> is the
  value of the \<open>k\<close>-th call of \<open>Math.random()\<close>, a double that is at least 0 and less
  than 1. \<open>Math.random() * (i + 1)\<close> is the product of two doubles, that is the exact
  product rounded to a double (\<open>i + 1\<close> is an integer below \<open>2^32\<close>, the bound of array
  lengths, and so is exact), and \<open>Math.floor\<close> takes the integer part of that double.
\<close>

definition random_index :: "rat \<Rightarrow> nat \<Rightarrow> nat" where
  "random_index r i = nat \<lfloor>binary64_round (r * of_nat (i + 1))\<rfloor>"

fun shuffle_loop :: "nat \<Rightarrow> (nat \<Rightarrow> rat) \<Rightarrow> nat \<Rightarrow> 'a list \<Rightarrow> 'a list" where
  "shuffle_loop 0 random k exs = exs"
| "shuffle_loop (Suc i') random k exs =
     (let i = Suc i';
          j = random_index (random k) i
      in shuffle_loop i' random (Suc k) (exs[i := exs ! j, j := exs ! i]))"

definition randomizeDay :: "(nat \<Rightarrow> rat) \<Rightarrow> weekday \<Rightarrow> planner \<Rightarrow> planner" where
  "randomizeDay random d st =
     (let exs = workouts st (getDayType d);
          shuffled = shuffle_loop (length exs - 1) random 0 exs
      in saveData (st\<lparr>schedule := (schedule st)(d := shuffled)\<rparr>))"

text \<open>
  The same loop driven by the list of indices drawn, first draw first: on a list of
  \<open>n\<close> elements there are \<open>n - 1\<close> draws, for \<open>i = n - 1\<close> down to 1, and the draw for
  \<open>i\<close> lies between 0 and \<open>i\<close>. \<open>index_draws random k i\<close> lists the indices that the
  loop draws from position \<open>i\<close> downwards, starting with call \<open>k\<close> of the random source.
\<close>

fun shuffle_by :: "nat list \<Rightarrow> 'a list \<Rightarrow> 'a list" where
  "shuffle_by [] exs = exs"
| "shuffle_by (j # js) exs =
     (let i = Suc (length js) in shuffle_by js (exs[i := exs ! j, j := exs ! i]))"



text \<open>
  The contract of \<open>Math.random()\<close>: every value is a double, at least 0 and less than 1.
\<close>

definition in_unit_interval :: "(nat \<Rightarrow> rat) \<Rightarrow> bool" where
  "in_unit_interval random \<longleftrightarrow>
     (\<forall>k. is_binary64 (random k) \<and> 0 \<le> random k \<and> random k < 1)"

section \<open>Catalog\<close>

definition addExercise :: "wtype \<Rightarrow> planner \<Rightarrow> planner" where
  "addExercise t st =
     (let name = trim (exercise_input st t)
      in if name \<noteq> [] \<and> name \<notin> set (workouts st t)
         then updateSchedule (saveData
                (st\<lparr>workouts := (workouts st)(t := workouts st t @ [name]),
                    exercise_input := (exercise_input st)(t := [])\<rparr>))
         else st)"

definition removeExercise :: "wtype \<Rightarrow> int \<Rightarrow> planner \<Rightarrow> planner" where
  "removeExercise t index st =
     updateSchedule (saveData
       (st\<lparr>workouts := (workouts st)(t := splice index 1 (workouts st t))\<rparr>))"

section \<open>Workout session\<close>

definition openModal :: "weekday \<Rightarrow> string list \<Rightarrow> planner \<Rightarrow> planner" where
  "openModal d exs st =
     st\<lparr>modal_sets := map (\<lambda>exercise. []) exs, modal_displayed := True\<rparr>"

definition startWorkout :: "weekday \<Rightarrow> planner \<Rightarrow> planner" where
  "startWorkout d st =
     (let exs = schedule st d
      in if length exs = 0
         then st\<lparr>alerts := alerts st @
                [''No exercises defined for this day. Please add exercises first.'']\<rparr>
         else openModal d exs
                (st\<lparr>currentWorkoutDay := Some d,
                    currentWorkoutData := Some (map (\<lambda>ex. \<lparr>name = ex, sets = []\<rparr>) exs)\<rparr>))"

text \<open>\<open>addSet\<close> appends a row with two empty fields to the container of one exercise.\<close>

definition addSet :: "nat \<Rightarrow> planner \<Rightarrow> planner" where
  "addSet exerciseIndex st =
     (if exerciseIndex < length (modal_sets st)
      then st\<lparr>modal_sets := (modal_sets st)[exerciseIndex :=
                modal_sets st ! exerciseIndex @ [\<lparr>weight_input = None, reps_input = None\<rparr>]]\<rparr>
      else st)"

text \<open>\<open>parseFloat(...) || 0\<close> and \<open>parseInt(...) || 0\<close>: \<open>NaN\<close> and 0 both give 0.\<close>

definition read_row :: "set_row \<Rightarrow> logged_set" where
  "read_row setDiv =
     \<lparr>weight = (case weight_input setDiv of None \<Rightarrow> 0 | Some w \<Rightarrow> w),
      reps = (case reps_input setDiv of None \<Rightarrow> 0 | Some n \<Rightarrow> n)\<rparr>"

text \<open>The inner \<open>forEach\<close> over the rows of one container, pushing onto the local array.\<close>

fun collect_sets :: "set_row list \<Rightarrow> logged_set list \<Rightarrow> logged_set list" where
  "collect_sets [] acc = acc"
| "collect_sets (setDiv # rest) acc =
     collect_sets rest (if reps (read_row setDiv) > 0 then acc @ [read_row setDiv] else acc)"

text \<open>
  The outer \<open>forEach\<close> over the day's exercises. \<open>getElementById\<close> returns \<open>null\<close> when the
  dialog has no container \<open>sets-i\<close>, and reading \<open>children\<close> of \<open>null\<close> raises.
\<close>

fun collect_exercises ::
  "string list \<Rightarrow> nat \<Rightarrow> set_row list list \<Rightarrow> exercise_log list \<Rightarrow> js_error + exercise_log list" where
  "collect_exercises [] exerciseIndex containers acc = Inr acc"
| "collect_exercises (exerciseName # rest) exerciseIndex containers acc =
     (if exerciseIndex < length containers
      then (let s = collect_sets (containers ! exerciseIndex) []
            in collect_exercises rest (Suc exerciseIndex) containers
                 (if length s > 0 then acc @ [\<lparr>name = exerciseName, sets = s\<rparr>] else acc))
      else Inl TypeError)"

definition closeModal :: "planner \<Rightarrow> planner" where
  "closeModal st =
     st\<lparr>modal_displayed := False, currentWorkoutDay := None, currentWorkoutData := None\<rparr>"

text \<open>
  \<open>completeWorkout\<close>; \<open>now\<close> is the value of \<open>new Date().toISOString()\<close>. Without a
  session, \<open>this.schedule[this.currentWorkoutDay]\<close> is \<open>undefined\<close> and \<open>forEach\<close> raises.
  An exception leaves the planner as it was: nothing is assigned before the loop ends.
  The closing alert ends with an emoji that the 8-bit strings here leave out.
\<close>

definition completeWorkout :: "string \<Rightarrow> planner \<Rightarrow> js_error + planner" where
  "completeWorkout now st =
     (case currentWorkoutDay st of
        None \<Rightarrow> Inl TypeError
      | Some d \<Rightarrow>
          (case collect_exercises (schedule st d) 0 (modal_sets st) [] of
             Inl e \<Rightarrow> Inl e
           | Inr logged \<Rightarrow>
               if length logged > 0
               then (let st1 = saveData (st\<lparr>progress := progress st @
                                  [\<lparr>day = d, date = now, exercises = logged\<rparr>]\<rparr>);
                         st2 = closeModal st1
                     in Inr (st2\<lparr>alerts := alerts st2 @ [''Workout completed! Great job!'']\<rparr>))
               else Inr (st\<lparr>alerts := alerts st @
                      [''Please log at least one set to complete the workout.'']\<rparr>)))"

section \<open>Actions of the user on the page\<close>

text \<open>Typing a text into the name field of one category.\<close>

definition typeName :: "wtype \<Rightarrow> string \<Rightarrow> planner \<Rightarrow> planner" where
  "typeName t txt st = st\<lparr>exercise_input := (exercise_input st)(t := txt)\<rparr>"

text \<open>Filling in row \<open>k\<close> of the sets container of exercise \<open>i\<close> in the dialog.\<close>

definition enterSet :: "nat \<Rightarrow> nat \<Rightarrow> rat option \<Rightarrow> int option \<Rightarrow> planner \<Rightarrow> planner" where
  "enterSet i k w r st =
     (if i < length (modal_sets st) \<and> k < length (modal_sets st ! i)
      then st\<lparr>modal_sets := (modal_sets st)[i :=
                (modal_sets st ! i)[k := \<lparr>weight_input = w, reps_input = r\<rparr>]]\<rparr>
      else st)"

text \<open>No row of the dialog holds a positive repetition count.\<close>

definition no_valid_set :: "planner \<Rightarrow> bool" where
  "no_valid_set st =
     list_all (list_all (\<lambda>setDiv. \<not> 0 < reps (read_row setDiv))) (modal_sets st)"

text \<open>An entry of a workout record that holds at least one set, each with positive reps.\<close>

definition valid_log :: "exercise_log \<Rightarrow> bool" where
  "valid_log e \<longleftrightarrow> sets e \<noteq> [] \<and> (\<forall>s\<in>set (sets e). 0 < reps s)"

section \<open>Event handlers\<close>

text \<open>
  The handlers that \<open>setupEventListeners\<close>, \<open>renderWorkouts\<close> and \<open>openModal\<close> register,
  and the typing of the user, as commands. An exception in a handler ends it; the
  planner keeps the state it had when the exception was raised.
\<close>

datatype command =
    AddExercise wtype
  | RemoveExercise wtype int
  | RandomizeDay "nat \<Rightarrow> rat" weekday
  | StartWorkout weekday
  | AddSet nat
  | CompleteWorkout string
  | CloseModal
  | TypeName wtype string
  | EnterSet nat nat "rat option" "int option"

fun exec :: "command \<Rightarrow> planner \<Rightarrow> planner" where
  "exec (AddExercise t) st = addExercise t st"
| "exec (RemoveExercise t index) st = removeExercise t index st"
| "exec (RandomizeDay random d) st = randomizeDay random d st"
| "exec (StartWorkout d) st = startWorkout d st"
| "exec (AddSet exerciseIndex) st = addSet exerciseIndex st"
| "exec (CompleteWorkout now) st =
     (case completeWorkout now st of Inl e \<Rightarrow> st | Inr st' \<Rightarrow> st')"
| "exec CloseModal st = closeModal st"
| "exec (TypeName t txt) st = typeName t txt st"
| "exec (EnterSet i k w r) st = enterSet i k w r st"

section \<open>Example states\<close>

text \<open>A planner with the given push catalog and Monday schedule, everything else empty.\<close>

definition push_monday :: "string list \<Rightarrow> string list \<Rightarrow> planner" where
  "push_monday ws ss =
     (constructed None)\<lparr>workouts := (\<lambda>t. [])(Push := ws), schedule := (\<lambda>d. [])(Monday := ss)\<rparr>"

text \<open>
  Scenario C of the specification: a Monday session on the exercises A and B, with one
  set of 100 x 10 for A and one set of 0 x 0 for B.
\<close>

definition scenario_C :: planner where
  "scenario_C =
     enterSet 1 0 (Some 0) (Some 0) (addSet 1
       (enterSet 0 0 (Some 100) (Some 10) (addSet 0
         (startWorkout Monday (push_monday [''A'', ''B''] [''A'', ''B''])))))"

text \<open>The same session with a negative count for A and an empty reps field for B.\<close>

definition scenario_empty :: planner where
  "scenario_empty =
     enterSet 1 0 (Some 50) None (addSet 1
       (enterSet 0 0 (Some 100) (Some (-3)) (addSet 0
         (startWorkout Monday (push_monday [''A'', ''B''] [''A'', ''B''])))))"


text \<open>
  The random sources whose first value is the double \<open>k / 2^53\<close>, for \<open>k\<close> below \<open>2^53\<close>:
  the \<open>2^53\<close> evenly spaced doubles of the unit interval. Later values are 0.
\<close>

definition grid_source :: "nat \<Rightarrow> nat \<Rightarrow> rat" where
  "grid_source k m = (if m = 0 then of_nat k / 2 ^ 53 else 0)"

text \<open>
  A Monday session on the exercises A and B, started before the exercise C is added to
  the push catalog: the schedule is resynced to three names, the dialog keeps its two
  sets containers, and no row has been filled in.
\<close>

definition scenario_grown :: planner where
  "scenario_grown =
     addExercise Push (typeName Push ''C''
       (startWorkout Monday (push_monday [''A'', ''B''] [''A'', ''B''])))"

section \<open>Facts about the schedule\<close>

lemma workouts_saveData: "workouts (saveData st) = workouts st"
  by (simp add: saveData_def)


lemma workouts_syncDay: "workouts (syncDay d st) = workouts st"
  by (simp add: syncDay_def)

lemma workouts_updateSchedule: "workouts (updateSchedule st) = workouts st"
  by (simp add: updateSchedule_def workouts_syncDay)

lemma schedule_syncDay_other: "d' \<noteq> d \<Longrightarrow> schedule (syncDay d st) d' = schedule st d'"
  by (simp add: syncDay_def)

lemma schedule_syncDay_same:
  "schedule (syncDay d st) d =
     (if length (schedule st d) = 0 \<or> \<not> isScheduleValid d st
      then workouts st (getDayType d) else schedule st d)"
  by (simp add: syncDay_def)

lemma isScheduleValid_syncDay_other:
  "d' \<noteq> d \<Longrightarrow> isScheduleValid d' (syncDay d st) = isScheduleValid d' st"
  by (simp add: isScheduleValid_def workouts_syncDay schedule_syncDay_other)

text \<open>After the pass over all six days, each day holds what its own step assigns.\<close>

lemma schedule_updateSchedule: "schedule (updateSchedule st) d = schedule (syncDay d st) d"
  by (cases d) (simp_all add: updateSchedule_def schedule_syncDay_other schedule_syncDay_same
      isScheduleValid_syncDay_other workouts_syncDay)

text \<open>
  The check of \<open>isScheduleValid\<close> (every scheduled name is available, and the lengths
  agree) amounts to being a permutation when the scheduled list has no repeated name.
\<close>

lemma valid_iff_mset:
  assumes "distinct xs"
  shows "(list_all (\<lambda>x. x \<in> set ys) xs \<and> length xs = length ys) \<longleftrightarrow> mset xs = mset ys"
proof
  assume h: "list_all (\<lambda>x. x \<in> set ys) xs \<and> length xs = length ys"
  then have sub: "set xs \<subseteq> set ys" by (auto simp: list_all_iff)
  have "card (set ys) \<le> length ys" by (rule card_length)
  also have "\<dots> = card (set xs)" using h assms by (simp add: distinct_card)
  finally have "card (set ys) \<le> card (set xs)" .
  with sub have eq: "set xs = set ys" by (simp add: card_seteq)
  then have "card (set ys) = length ys" using h assms by (metis distinct_card)
  then have "distinct ys" by (simp add: card_distinct)
  with eq assms show "mset xs = mset ys" by (simp add: set_eq_iff_mset_eq_distinct)
next
  assume h: "mset xs = mset ys"
  then have "set xs = set ys" "length xs = length ys"
    by (auto dest: mset_eq_setD mset_eq_length)
  then show "list_all (\<lambda>x. x \<in> set ys) xs \<and> length xs = length ys"
    by (simp add: list_all_iff)
qed

text \<open>
  Claim C1, as stated: after \<open>sync(D)\<close> the multiset of Schedule[D] equals the multiset of
  Catalog[category(D)]. It fails when the day's list repeats a name: with the push catalog
  A, B and the Monday list A, A, every scheduled name is available and the lengths agree,
  so the list is kept although it is no permutation of the catalog.
\<close>

theorem sync_repeated_name_counterexample:
  "schedule (syncDay Monday (push_monday [''A'', ''B''] [''A'', ''A''])) Monday = [''A'', ''A''] \<and>
   mset (schedule (syncDay Monday (push_monday [''A'', ''B''] [''A'', ''A''])) Monday)
     \<noteq> mset (workouts (push_monday [''A'', ''B''] [''A'', ''A'']) (getDayType Monday))"
  by (simp add: syncDay_def isScheduleValid_def push_monday_def constructed_def)

text \<open>
  Claim C1, amended: for every day D whose list Schedule[D] holds no name twice, after
  \<open>sync(D)\<close> the multiset of Schedule[D] equals the multiset of Catalog[category(D)]: if
  Schedule[D] is empty or is not a permutation of Catalog[category(D)], it is replaced by
  a copy of Catalog[category(D)] in catalog order, and otherwise the planner is left
  untouched. The catalog is never changed, and the pass of \<open>updateSchedule\<close> over all days
  leaves on each day the list its own step assigns.
\<close>

theorem sync_multiset:
  assumes "distinct (schedule st d)"
  shows "mset (schedule (syncDay d st) d) = mset (workouts st (getDayType d)) \<and>
         (if schedule st d = [] \<or> mset (schedule st d) \<noteq> mset (workouts st (getDayType d))
          then schedule (syncDay d st) d = workouts st (getDayType d)
          else syncDay d st = st) \<and>
         workouts (syncDay d st) = workouts st \<and>
         schedule (updateSchedule st) d = schedule (syncDay d st) d"
proof -
  have v: "isScheduleValid d st \<longleftrightarrow> mset (schedule st d) = mset (workouts st (getDayType d))"
    unfolding isScheduleValid_def Let_def by (rule valid_iff_mset [OF assms])
  show ?thesis
    using v by (auto simp: syncDay_def schedule_updateSchedule)
qed

text \<open>Scenario B of the specification: a stale Monday list A, B is resynced to A, B, C.\<close>

theorem sync_multiset_witness:
  "distinct (schedule (push_monday [''A'', ''B'', ''C''] [''A'', ''B'']) Monday) \<and>
   schedule (syncDay Monday (push_monday [''A'', ''B'', ''C''] [''A'', ''B''])) Monday
     = [''A'', ''B'', ''C''] \<and>
   mset (schedule (syncDay Monday (push_monday [''A'', ''B'', ''C''] [''A'', ''B''])) Monday)
     = mset (workouts (push_monday [''A'', ''B'', ''C''] [''A'', ''B'']) (getDayType Monday))"
proof -
  have h: "distinct (schedule (push_monday [''A'', ''B'', ''C''] [''A'', ''B'']) Monday)"
    by (simp add: push_monday_def constructed_def)
  from sync_multiset [OF h] show ?thesis
    using h by (simp add: push_monday_def constructed_def)
qed

section \<open>Facts about the catalog\<close>

lemma splice_beyond_end: "int (length xs) \<le> i \<Longrightarrow> splice i 1 xs = xs"
  by (simp add: splice_def Let_def)

lemma workouts_addExercise:
  "workouts (addExercise t st) =
     (if trim (exercise_input st t) \<noteq> [] \<and> trim (exercise_input st t) \<notin> set (workouts st t)
      then (workouts st)(t := workouts st t @ [trim (exercise_input st t)])
      else workouts st)"
  by (simp add: addExercise_def Let_def workouts_updateSchedule workouts_saveData)

lemma workouts_typeName: "workouts (typeName t txt st) = workouts st"
  by (simp add: typeName_def)

lemma exercise_input_typeName: "exercise_input (typeName t txt st) t = txt"
  by (simp add: typeName_def)

lemma workouts_first_load:
  "workouts (WorkoutPlanner None) = default_workouts"
  by (simp add: WorkoutPlanner_def init_def loadData_def constructed_def workouts_saveData)

text \<open>
  Claim C5, as stated: adding N twice to C results in exactly one occurrence of N in
  Catalog[C]. It fails for a name that is blank after trimming: the guard \<open>name &&\<close>
  rejects it both times, and the push catalog holds it zero times.
\<close>

theorem addExercise_blank_counterexample:
  "count_list (workouts (addExercise Push (typeName Push '' ''
      (addExercise Push (typeName Push '' '' (WorkoutPlanner None))))) Push) '' '' = 0 \<and>
   count_list (workouts (addExercise Push (typeName Push '' ''
      (addExercise Push (typeName Push '' '' (WorkoutPlanner None))))) Push) (trim '' '') = 0"
  by (simp add: workouts_addExercise workouts_typeName exercise_input_typeName
      workouts_first_load trim_def js_whitespace_def default_workouts_def)

text \<open>
  Claim C5, amended: for every category C and name N, \<open>add(C, N)\<close> first trims white
  space from N; if the trimmed name is empty or already present in Catalog[C] (exact
  match) the operation changes nothing, and otherwise it appends the trimmed name to the
  end of Catalog[C] and leaves the other categories alone; consequently, when the
  trimmed name is not empty and Catalog[C] holds it at most once beforehand, adding N
  twice to C results in exactly one occurrence of the trimmed name in Catalog[C].
\<close>

theorem addExercise_trimmed:
  "(trim N = [] \<or> trim N \<in> set (workouts st t)
      \<longrightarrow> addExercise t (typeName t N st) = typeName t N st) \<and>
   (trim N \<noteq> [] \<and> trim N \<notin> set (workouts st t)
      \<longrightarrow> workouts (addExercise t (typeName t N st))
            = (workouts st)(t := workouts st t @ [trim N])) \<and>
   (trim N \<noteq> [] \<and> count_list (workouts st t) (trim N) \<le> 1
      \<longrightarrow> count_list (workouts (addExercise t (typeName t N
                          (addExercise t (typeName t N st)))) t) (trim N) = 1)"
proof (intro conjI impI)
  assume "trim N = [] \<or> trim N \<in> set (workouts st t)"
  then show "addExercise t (typeName t N st) = typeName t N st"
    by (auto simp: addExercise_def Let_def typeName_def)
next
  assume "trim N \<noteq> [] \<and> trim N \<notin> set (workouts st t)"
  then show "workouts (addExercise t (typeName t N st))
             = (workouts st)(t := workouts st t @ [trim N])"
    by (simp add: workouts_addExercise workouts_typeName exercise_input_typeName)
next
  assume h: "trim N \<noteq> [] \<and> count_list (workouts st t) (trim N) \<le> 1"
  show "count_list (workouts (addExercise t (typeName t N
          (addExercise t (typeName t N st)))) t) (trim N) = 1"
  proof (cases "trim N \<in> set (workouts st t)")
    case True
    then have "count_list (workouts st t) (trim N) > 0"
      using count_list_0_iff [of "workouts st t" "trim N"] by simp
    with h True show ?thesis
      by (simp add: workouts_addExercise workouts_typeName exercise_input_typeName)
  next
    case False
    then have "count_list (workouts st t) (trim N) = 0" by (simp add: count_list_0_iff)
    with h False show ?thesis
      by (simp add: workouts_addExercise workouts_typeName exercise_input_typeName)
  qed
qed

text \<open>
  On the seed catalog: a name already listed is refused, and a new name typed with
  surrounding blanks is appended trimmed, once, however often it is added.
\<close>

theorem addExercise_trimmed_witness:
  "trim ''Bench Press'' \<in> set (workouts (WorkoutPlanner None) Push) \<and>
   addExercise Push (typeName Push ''Bench Press'' (WorkoutPlanner None))
     = typeName Push ''Bench Press'' (WorkoutPlanner None) \<and>
   trim ''  Dips '' \<noteq> [] \<and> trim ''  Dips '' \<notin> set (workouts (WorkoutPlanner None) Push) \<and>
   count_list (workouts (WorkoutPlanner None) Push) (trim ''  Dips '') \<le> 1 \<and>
   workouts (addExercise Push (typeName Push ''  Dips '' (WorkoutPlanner None))) Push
     = [''Bench Press'', ''Overhead Press'', ''Incline Dumbbell Press'',
        ''Lateral Raises'', ''Tricep Dips'', ''Dips''] \<and>
   count_list (workouts (addExercise Push (typeName Push ''  Dips ''
      (addExercise Push (typeName Push ''  Dips '' (WorkoutPlanner None))))) Push) ''Dips'' = 1"
proof -
  have a: "trim ''Bench Press'' \<in> set (workouts (WorkoutPlanner None) Push)"
    by (simp add: workouts_first_load trim_def js_whitespace_def default_workouts_def)
  have b: "trim ''  Dips '' = ''Dips''"
    by (simp add: trim_def js_whitespace_def)
  have c: "trim ''  Dips '' \<noteq> [] \<and> trim ''  Dips '' \<notin> set (workouts (WorkoutPlanner None) Push)"
    by (simp add: b workouts_first_load default_workouts_def)
  have d: "trim ''  Dips '' \<noteq> [] \<and>
           count_list (workouts (WorkoutPlanner None) Push) (trim ''  Dips '') \<le> 1"
    by (simp add: b workouts_first_load default_workouts_def)
  have r1: "addExercise Push (typeName Push ''Bench Press'' (WorkoutPlanner None))
              = typeName Push ''Bench Press'' (WorkoutPlanner None)"
    using addExercise_trimmed [of "''Bench Press''" "WorkoutPlanner None" Push] a by blast
  have r2: "workouts (addExercise Push (typeName Push ''  Dips '' (WorkoutPlanner None)))
              = (workouts (WorkoutPlanner None))
                  (Push := workouts (WorkoutPlanner None) Push @ [trim ''  Dips ''])"
    using addExercise_trimmed [of "''  Dips ''" "WorkoutPlanner None" Push] c by blast
  have r3: "count_list (workouts (addExercise Push (typeName Push ''  Dips ''
              (addExercise Push (typeName Push ''  Dips '' (WorkoutPlanner None))))) Push)
              (trim ''  Dips '') = 1"
    using addExercise_trimmed [of "''  Dips ''" "WorkoutPlanner None" Push] d by blast
  have r2': "workouts (addExercise Push (typeName Push ''  Dips '' (WorkoutPlanner None))) Push
              = [''Bench Press'', ''Overhead Press'', ''Incline Dumbbell Press'',
                 ''Lateral Raises'', ''Tricep Dips'', ''Dips'']"
    by (simp add: r2 b workouts_first_load default_workouts_def)
  from a r1 c d r2' r3 show ?thesis by (simp only: b simp_thms)
qed

text \<open>
  Claim C6, as stated: for every index that is not a valid position of Catalog[C],
  \<open>remove(C, i)\<close> leaves Catalog[C] unchanged. It fails for a negative index, which
  \<open>splice\<close> counts from the end: index \<open>-1\<close> removes the last exercise.
\<close>

theorem removeExercise_negative_counterexample:
  "\<not> (0 \<le> (-1 :: int) \<and>
      (-1 :: int) < int (length (workouts (push_monday [''A'', ''B'', ''C''] []) Push))) \<and>
   workouts (removeExercise Push (-1) (push_monday [''A'', ''B'', ''C''] [])) Push
     = [''A'', ''B''] \<and>
   workouts (removeExercise Push (-1) (push_monday [''A'', ''B'', ''C''] [])) Push
     \<noteq> workouts (push_monday [''A'', ''B'', ''C''] []) Push"
  by (simp add: removeExercise_def workouts_updateSchedule workouts_saveData splice_def
      push_monday_def constructed_def)

text \<open>
  Claim C6, amended: for every category C and every index i at or beyond the end of
  Catalog[C] (i at least the length of the list), \<open>remove(C, i)\<close> leaves the whole catalog
  unchanged; the operation has no failing branch, so no error reaches the caller.
\<close>

theorem removeExercise_beyond_end:
  assumes "int (length (workouts st t)) \<le> index"
  shows "workouts (removeExercise t index st) = workouts st"
  using assms
  by (simp add: removeExercise_def workouts_updateSchedule workouts_saveData splice_beyond_end)

text \<open>Scenario E of the specification: index 99 on a list of three exercises.\<close>

theorem removeExercise_beyond_end_witness:
  "int (length (workouts (push_monday [''A'', ''B'', ''C''] []) Push)) \<le> 99 \<and>
   workouts (removeExercise Push 99 (push_monday [''A'', ''B'', ''C''] [])) Push
     = [''A'', ''B'', ''C'']"
proof -
  have h: "int (length (workouts (push_monday [''A'', ''B'', ''C''] []) Push)) \<le> 99"
    by (simp add: push_monday_def constructed_def)
  from removeExercise_beyond_end [OF h] show ?thesis
    using h by (simp add: push_monday_def constructed_def)
qed

section \<open>Facts about the workout session\<close>

lemma collect_sets_eq:
  "collect_sets rows acc = acc @ map read_row (filter (\<lambda>setDiv. 0 < reps (read_row setDiv)) rows)"
  by (induction rows arbitrary: acc) simp_all

lemma collect_sets_valid: "\<forall>s\<in>set (collect_sets rows []). 0 < reps s"
  by (auto simp: collect_sets_eq)

lemma collect_exercises_total:
  "i + length exs \<le> length cs \<Longrightarrow> \<exists>logged. collect_exercises exs i cs acc = Inr logged"
  by (induction exs arbitrary: i acc) (simp_all add: Let_def)

lemma collect_exercises_valid:
  "collect_exercises exs i cs acc = Inr logged \<Longrightarrow> \<forall>e\<in>set acc. valid_log e
     \<Longrightarrow> \<forall>e\<in>set logged. valid_log e"
proof (induction exs arbitrary: i acc)
  case Nil
  then show ?case by simp
next
  case (Cons ex exs)
  from Cons.prems(1) have lt: "i < length cs" by (simp split: if_splits)
  let ?s = "collect_sets (cs ! i) []"
  let ?acc = "if length ?s > 0 then acc @ [\<lparr>name = ex, sets = ?s\<rparr>] else acc"
  from Cons.prems(1) lt have step: "collect_exercises exs (Suc i) cs ?acc = Inr logged"
    by (simp add: Let_def)
  have "\<forall>e\<in>set ?acc. valid_log e"
    using Cons.prems(2) collect_sets_valid [of "cs ! i"] by (auto simp: valid_log_def)
  with Cons.IH [OF step] show ?case by blast
qed

lemma collect_exercises_none:
  "i + length exs \<le> length cs \<Longrightarrow> list_all (list_all (\<lambda>setDiv. \<not> 0 < reps (read_row setDiv))) cs
     \<Longrightarrow> collect_exercises exs i cs acc = Inr acc"
proof (induction exs arbitrary: i)
  case Nil
  then show ?case by simp
next
  case (Cons ex exs)
  then have lt: "i < length cs" by simp
  with Cons.prems(2) have "list_all (\<lambda>setDiv. \<not> 0 < reps (read_row setDiv)) (cs ! i)"
    by (simp add: list_all_length)
  then have "filter (\<lambda>setDiv. 0 < reps (read_row setDiv)) (cs ! i) = []"
    by (simp add: list_all_iff filter_empty_conv)
  then have "collect_sets (cs ! i) [] = []" by (simp add: collect_sets_eq)
  with Cons lt show ?case by simp
qed

lemma completeWorkout_no_valid_set:
  assumes "currentWorkoutDay st = Some d" "length (schedule st d) \<le> length (modal_sets st)"
    "no_valid_set st"
  shows "completeWorkout now st =
     Inr (st\<lparr>alerts := alerts st @ [''Please log at least one set to complete the workout.'']\<rparr>)"
  using assms collect_exercises_none [of 0 "schedule st d" "modal_sets st" "[]"]
  by (simp add: completeWorkout_def no_valid_set_def)

lemma completeWorkout_cases:
  assumes "currentWorkoutDay st = Some d" "length (schedule st d) \<le> length (modal_sets st)"
  obtains logged where "collect_exercises (schedule st d) 0 (modal_sets st) [] = Inr logged"
    "logged = []"
    "completeWorkout now st =
       Inr (st\<lparr>alerts := alerts st @ [''Please log at least one set to complete the workout.'']\<rparr>)"
  | logged where "collect_exercises (schedule st d) 0 (modal_sets st) [] = Inr logged"
    "logged \<noteq> []"
    "completeWorkout now st =
       Inr ((closeModal (saveData (st\<lparr>progress := progress st @
              [\<lparr>day = d, date = now, exercises = logged\<rparr>]\<rparr>)))
            \<lparr>alerts := alerts st @ [''Workout completed! Great job!'']\<rparr>)"
proof -
  from collect_exercises_total [of 0 "schedule st d" "modal_sets st" "[]"] assms(2)
  obtain logged where c: "collect_exercises (schedule st d) 0 (modal_sets st) [] = Inr logged"
    by auto
  show thesis
  proof (cases "logged = []")
    case True
    with c assms(1) that(1) show thesis by (simp add: completeWorkout_def)
  next
    case False
    with c assms(1) that(2) show thesis
      by (simp add: completeWorkout_def Let_def closeModal_def saveData_def)
  qed
qed

lemma scenario_C_modal: "modal_sets scenario_C =
  [[\<lparr>weight_input = Some 100, reps_input = Some 10\<rparr>], [\<lparr>weight_input = Some 0, reps_input = Some 0\<rparr>]]"
  by (simp add: scenario_C_def enterSet_def addSet_def startWorkout_def openModal_def
      Let_def push_monday_def constructed_def)

lemma scenario_C_day: "currentWorkoutDay scenario_C = Some Monday"
  by (simp add: scenario_C_def enterSet_def addSet_def startWorkout_def openModal_def
      Let_def push_monday_def constructed_def)

lemma scenario_C_schedule: "schedule scenario_C Monday = [''A'', ''B'']"
  by (simp add: scenario_C_def enterSet_def addSet_def startWorkout_def openModal_def
      Let_def push_monday_def constructed_def)

lemma scenario_C_progress: "progress scenario_C = []"
  by (simp add: scenario_C_def enterSet_def addSet_def startWorkout_def openModal_def
      Let_def push_monday_def constructed_def)

lemma scenario_C_complete:
  "(case completeWorkout now scenario_C of Inl e \<Rightarrow> [] | Inr st' \<Rightarrow> progress st')
     = [\<lparr>day = Monday, date = now,
         exercises = [\<lparr>name = ''A'', sets = [\<lparr>weight = 100, reps = 10\<rparr>]\<rparr>]\<rparr>]"
  by (simp add: completeWorkout_def scenario_C_day scenario_C_schedule scenario_C_modal
      scenario_C_progress read_row_def closeModal_def saveData_def)

lemma scenario_empty_modal: "modal_sets scenario_empty =
  [[\<lparr>weight_input = Some 100, reps_input = Some (-3)\<rparr>], [\<lparr>weight_input = Some 50, reps_input = None\<rparr>]]"
  by (simp add: scenario_empty_def enterSet_def addSet_def startWorkout_def openModal_def
      Let_def push_monday_def constructed_def)

lemma scenario_empty_day: "currentWorkoutDay scenario_empty = Some Monday"
  by (simp add: scenario_empty_def enterSet_def addSet_def startWorkout_def openModal_def
      Let_def push_monday_def constructed_def)

lemma scenario_empty_schedule: "schedule scenario_empty Monday = [''A'', ''B'']"
  by (simp add: scenario_empty_def enterSet_def addSet_def startWorkout_def openModal_def
      Let_def push_monday_def constructed_def)

lemma scenario_empty_no_valid_set: "no_valid_set scenario_empty"
  by (simp add: no_valid_set_def scenario_empty_modal read_row_def)

lemma currentWorkoutDay_updateSchedule:
  "currentWorkoutDay (updateSchedule st) = currentWorkoutDay st"
  by (simp add: updateSchedule_def syncDay_def)

lemma currentWorkoutDay_saveData: "currentWorkoutDay (saveData st) = currentWorkoutDay st"
  by (simp add: saveData_def)

lemma progress_saveData: "progress (saveData st) = progress st"
  by (simp add: saveData_def)

lemma session_kept:
  assumes "currentWorkoutDay st = Some d" "currentWorkoutDay (exec c st) = None"
  shows "c = CloseModal \<or>
         (\<exists>now. c = CompleteWorkout now \<and> length (progress (exec c st)) = Suc (length (progress st)))"
proof (cases c)
  case (AddExercise t)
  with assms show ?thesis
    by (simp add: addExercise_def Let_def currentWorkoutDay_updateSchedule
        currentWorkoutDay_saveData split: if_splits)
next
  case (RemoveExercise t index)
  with assms show ?thesis
    by (simp add: removeExercise_def currentWorkoutDay_updateSchedule currentWorkoutDay_saveData)
next
  case (RandomizeDay random d')
  with assms show ?thesis
    by (simp add: randomizeDay_def Let_def currentWorkoutDay_saveData)
next
  case (StartWorkout d')
  with assms show ?thesis
    by (simp add: startWorkout_def openModal_def Let_def split: if_splits)
next
  case (AddSet i)
  with assms show ?thesis by (simp add: addSet_def split: if_splits)
next
  case (CompleteWorkout now)
  with assms show ?thesis
    by (auto simp: completeWorkout_def Let_def closeModal_def progress_saveData
        split: sum.splits if_splits)
next
  case CloseModal
  then show ?thesis by simp
next
  case (TypeName t v)
  with assms show ?thesis by (simp add: typeName_def)
next
  case (EnterSet i k w r)
  with assms show ?thesis by (simp add: enterSet_def split: if_splits)
qed

lemma collect_exercises_extends:
  "collect_exercises exs i cs acc = Inr logged \<Longrightarrow> \<exists>more. logged = acc @ more"
proof (induction exs arbitrary: i acc)
  case Nil
  then show ?case by simp
next
  case (Cons ex exs)
  from Cons.prems have lt: "i < length cs" by (simp split: if_splits)
  let ?s = "collect_sets (cs ! i) []"
  let ?acc = "if length ?s > 0 then acc @ [\<lparr>name = ex, sets = ?s\<rparr>] else acc"
  from Cons.prems lt have "collect_exercises exs (Suc i) cs ?acc = Inr logged"
    by (simp add: Let_def)
  from Cons.IH [OF this] obtain more where "logged = ?acc @ more" by blast
  then show ?case by (cases "length ?s > 0") auto
qed

lemma collect_exercises_some:
  "collect_exercises exs i cs acc = Inr logged \<Longrightarrow> k < length exs
     \<Longrightarrow> \<exists>setDiv\<in>set (cs ! (i + k)). 0 < reps (read_row setDiv) \<Longrightarrow> logged \<noteq> []"
proof (induction exs arbitrary: i acc k)
  case Nil
  then show ?case by simp
next
  case (Cons ex exs)
  from Cons.prems(1) have lt: "i < length cs" by (simp split: if_splits)
  let ?s = "collect_sets (cs ! i) []"
  let ?acc = "if length ?s > 0 then acc @ [\<lparr>name = ex, sets = ?s\<rparr>] else acc"
  from Cons.prems(1) lt have step: "collect_exercises exs (Suc i) cs ?acc = Inr logged"
    by (simp add: Let_def)
  show ?case
  proof (cases k)
    case 0
    with Cons.prems(3) have "?s \<noteq> []" by (auto simp: collect_sets_eq filter_empty_conv)
    then have "?acc \<noteq> []" by simp
    with collect_exercises_extends [OF step] show ?thesis by auto
  next
    case (Suc k')
    with Cons.prems have "k' < length exs"
      "\<exists>setDiv\<in>set (cs ! (Suc i + k')). 0 < reps (read_row setDiv)" by simp_all
    with Cons.IH [OF step] show ?thesis by blast
  qed
qed

lemma retry_after_adding_set:
  assumes day: "currentWorkoutDay st = Some d"
    and len: "length (schedule st d) \<le> length (modal_sets st)"
    and i: "i < length (schedule st d)" and r: "0 < r"
  shows "\<exists>st' rec. completeWorkout now
            (enterSet i (length (modal_sets st ! i)) w (Some r) (addSet i st)) = Inr st' \<and>
          progress st' = progress st @ [rec] \<and> currentWorkoutDay st' = None"
proof -
  let ?st = "enterSet i (length (modal_sets st ! i)) w (Some r) (addSet i st)"
  from i len have il: "i < length (modal_sets st)" by simp
  then have ms: "modal_sets ?st = (modal_sets st)[i := modal_sets st ! i @
                   [\<lparr>weight_input = w, reps_input = Some r\<rparr>]]"
    by (simp add: enterSet_def addSet_def)
  have same: "currentWorkoutDay ?st = Some d" "schedule ?st = schedule st"
    "progress ?st = progress st"
    using day by (simp_all add: enterSet_def addSet_def)
  have len': "length (schedule ?st d) \<le> length (modal_sets ?st)"
    using len by (simp add: ms same)
  have valid: "\<exists>setDiv\<in>set (modal_sets ?st ! (0 + i)). 0 < reps (read_row setDiv)"
    using il r by (simp add: ms read_row_def)
  show ?thesis
  proof (rule completeWorkout_cases [OF same(1) len', of now])
    fix logged
    assume "collect_exercises (schedule ?st d) 0 (modal_sets ?st) [] = Inr logged" "logged = []"
    with collect_exercises_some [of "schedule ?st d" 0 "modal_sets ?st" "[]" logged i] i valid
    show ?thesis by (simp add: same)
  next
    fix logged
    assume "completeWorkout now ?st =
       Inr ((closeModal (saveData (?st\<lparr>progress := progress ?st @
              [\<lparr>day = d, date = now, exercises = logged\<rparr>]\<rparr>)))
            \<lparr>alerts := alerts ?st @ [''Workout completed! Great job!'']\<rparr>)"
    then show ?thesis by (simp add: same closeModal_def saveData_def)
  qed
qed

text \<open>
  Claim C3: for every active session (a day is set and the dialog holds a sets container
  for every exercise of that day) and every content of the rows, \<open>complete()\<close> returns;
  and whenever it returns, the progress log is either unchanged or extended by one
  record, for the session's day and the current time, that has at least one exercise
  entry, no entry with zero sets, and only sets with reps greater than 0.
\<close>

theorem completeWorkout_record:
  "(currentWorkoutDay st = Some d \<and> length (schedule st d) \<le> length (modal_sets st)
      \<longrightarrow> (\<exists>st'. completeWorkout now st = Inr st')) \<and>
   (completeWorkout now st = Inr st' \<longrightarrow>
      progress st' = progress st \<or>
      (\<exists>r. progress st' = progress st @ [r] \<and> currentWorkoutDay st = Some (day r) \<and>
           date r = now \<and> exercises r \<noteq> [] \<and>
           (\<forall>e\<in>set (exercises r). sets e \<noteq> [] \<and> (\<forall>s\<in>set (sets e). 0 < reps s))))"
proof (intro conjI impI)
  assume "currentWorkoutDay st = Some d \<and> length (schedule st d) \<le> length (modal_sets st)"
  then have a: "currentWorkoutDay st = Some d" "length (schedule st d) \<le> length (modal_sets st)"
    by simp_all
  show "\<exists>st'. completeWorkout now st = Inr st'"
    by (rule completeWorkout_cases [OF a, of now]) blast+
next
  assume r: "completeWorkout now st = Inr st'"
  then obtain d logged where d: "currentWorkoutDay st = Some d"
    and c: "collect_exercises (schedule st d) 0 (modal_sets st) [] = Inr logged"
    by (auto simp: completeWorkout_def split: option.splits sum.splits)
  from collect_exercises_valid [OF c] have v: "\<forall>e\<in>set logged. valid_log e" by simp
  show "progress st' = progress st \<or>
      (\<exists>r. progress st' = progress st @ [r] \<and> currentWorkoutDay st = Some (day r) \<and>
           date r = now \<and> exercises r \<noteq> [] \<and>
           (\<forall>e\<in>set (exercises r). sets e \<noteq> [] \<and> (\<forall>s\<in>set (sets e). 0 < reps s)))"
  proof (cases "logged = []")
    case True
    with r d c have "st' = st\<lparr>alerts := alerts st @
        [''Please log at least one set to complete the workout.'']\<rparr>"
      by (simp add: completeWorkout_def)
    then show ?thesis by simp
  next
    case False
    with r d c have "progress st' = progress st @ [\<lparr>day = d, date = now, exercises = logged\<rparr>]"
      by (auto simp: completeWorkout_def Let_def closeModal_def saveData_def)
    with False v d show ?thesis by (simp add: valid_log_def)
  qed
qed

text \<open>Scenario C: only the set of A is stored; B, whose only set has 0 reps, is dropped.\<close>

theorem completeWorkout_record_witness:
  "currentWorkoutDay scenario_C = Some Monday \<and>
   length (schedule scenario_C Monday) \<le> length (modal_sets scenario_C) \<and>
   (\<exists>st'. completeWorkout ''2024-01-15T10:00:00.000Z'' scenario_C = Inr st' \<and>
      progress st' = [\<lparr>day = Monday, date = ''2024-01-15T10:00:00.000Z'',
         exercises = [\<lparr>name = ''A'', sets = [\<lparr>weight = 100, reps = 10\<rparr>]\<rparr>]\<rparr>] \<and>
      (\<exists>r. progress st' = progress scenario_C @ [r] \<and> exercises r \<noteq> [] \<and>
           (\<forall>e\<in>set (exercises r). sets e \<noteq> [] \<and> (\<forall>s\<in>set (sets e). 0 < reps s))))"
proof -
  let ?now = "''2024-01-15T10:00:00.000Z''"
  have h1: "currentWorkoutDay scenario_C = Some Monday" by (rule scenario_C_day)
  have h2: "length (schedule scenario_C Monday) \<le> length (modal_sets scenario_C)"
    by (simp add: scenario_C_schedule scenario_C_modal)
  from completeWorkout_record [of scenario_C Monday ?now, THEN conjunct1, rule_format,
      OF conjI [OF h1 h2]]
  obtain st' where r: "completeWorkout ?now scenario_C = Inr st'" by blast
  with scenario_C_complete [of ?now]
  have p: "progress st' = [\<lparr>day = Monday, date = ?now,
         exercises = [\<lparr>name = ''A'', sets = [\<lparr>weight = 100, reps = 10\<rparr>]\<rparr>]\<rparr>]"
    by simp
  from completeWorkout_record [of scenario_C Monday ?now st', THEN conjunct2, rule_format, OF r]
  have "progress st' = progress scenario_C \<or>
      (\<exists>r. progress st' = progress scenario_C @ [r] \<and> currentWorkoutDay scenario_C = Some (day r) \<and>
           date r = ?now \<and> exercises r \<noteq> [] \<and>
           (\<forall>e\<in>set (exercises r). sets e \<noteq> [] \<and> (\<forall>s\<in>set (sets e). 0 < reps s)))" .
  moreover have "progress st' \<noteq> progress scenario_C"
    by (simp add: p scenario_C_progress)
  ultimately have q: "\<exists>r. progress st' = progress scenario_C @ [r] \<and> exercises r \<noteq> [] \<and>
           (\<forall>e\<in>set (exercises r). sets e \<noteq> [] \<and> (\<forall>s\<in>set (sets e). 0 < reps s))"
    by blast
  from h1 h2 r p q show ?thesis by blast
qed

lemma scenario_grown_state:
  "currentWorkoutDay scenario_grown = Some Monday"
  "schedule scenario_grown Monday = [''A'', ''B'', ''C'']"
  "modal_sets scenario_grown = [[], []]"
  "alerts scenario_grown = []"
  by (simp_all add: scenario_grown_def addExercise_def typeName_def trim_def js_whitespace_def
      startWorkout_def openModal_def push_monday_def constructed_def Let_def saveData_def
      updateSchedule_def syncDay_def isScheduleValid_def)

text \<open>
  Claim C4: every active session in which no row has reps greater than 0 gets the
  failure report of \<open>complete()\<close>, and nothing is persisted. The code misses the report
  when the schedule of the session's day has grown since the start: \<open>completeWorkout\<close>
  walks the current schedule, not the exercises the session was started with
  (\<open>currentWorkoutData\<close> is written by \<open>startWorkout\<close> and never read). After a Monday
  session is started on A and B and the exercise C is added to the push catalog, the
  schedule holds three names over two sets containers, the lookup of the third
  container gives \<open>null\<close>, and the call ends with a \<open>TypeError\<close> and without an alert.
  The planner is left as it was.
\<close>

theorem completeWorkout_grown_schedule_raises:
  "currentWorkoutDay scenario_grown = Some Monday \<and>
   no_valid_set scenario_grown \<and>
   schedule scenario_grown Monday = [''A'', ''B'', ''C''] \<and>
   modal_sets scenario_grown = [[], []] \<and>
   completeWorkout ''2024-01-15T10:00:00.000Z'' scenario_grown = Inl TypeError \<and>
   exec (CompleteWorkout ''2024-01-15T10:00:00.000Z'') scenario_grown = scenario_grown \<and>
   alerts scenario_grown = []"
  by (simp add: scenario_grown_state completeWorkout_def no_valid_set_def)

text \<open>
  Claim C8: for every day D, \<open>start(D)\<close> reports an error (an alert) if and only if
  Schedule[D] is empty; on failure the planner is unchanged apart from the alert, so no
  session is created; on success the session is bound to D, with one entry with an empty
  set list per exercise of Schedule[D] and one empty sets container per exercise in the
  dialog, and nothing else changes.
\<close>

theorem startWorkout_iff_nonempty:
  "(alerts (startWorkout d st) \<noteq> alerts st \<longleftrightarrow> schedule st d = []) \<and>
   (schedule st d = [] \<longrightarrow>
      startWorkout d st = st\<lparr>alerts := alerts st @
        [''No exercises defined for this day. Please add exercises first.'']\<rparr>) \<and>
   (schedule st d \<noteq> [] \<longrightarrow>
      startWorkout d st =
        st\<lparr>currentWorkoutDay := Some d,
           currentWorkoutData := Some (map (\<lambda>ex. \<lparr>name = ex, sets = []\<rparr>) (schedule st d)),
           modal_sets := replicate (length (schedule st d)) [],
           modal_displayed := True\<rparr>)"
  by (simp add: startWorkout_def openModal_def Let_def map_replicate_const)

text \<open>Scenario D: Tuesday has no exercises, Monday has two.\<close>

theorem startWorkout_iff_nonempty_witness:
  "schedule (push_monday [''A'', ''B''] [''A'', ''B'']) Tuesday = [] \<and>
   alerts (startWorkout Tuesday (push_monday [''A'', ''B''] [''A'', ''B'']))
     \<noteq> alerts (push_monday [''A'', ''B''] [''A'', ''B'']) \<and>
   currentWorkoutDay (startWorkout Tuesday (push_monday [''A'', ''B''] [''A'', ''B''])) = None \<and>
   schedule (push_monday [''A'', ''B''] [''A'', ''B'']) Monday \<noteq> [] \<and>
   alerts (startWorkout Monday (push_monday [''A'', ''B''] [''A'', ''B''])) = [] \<and>
   currentWorkoutDay (startWorkout Monday (push_monday [''A'', ''B''] [''A'', ''B'']))
     = Some Monday \<and>
   currentWorkoutData (startWorkout Monday (push_monday [''A'', ''B''] [''A'', ''B'']))
     = Some [\<lparr>name = ''A'', sets = []\<rparr>, \<lparr>name = ''B'', sets = []\<rparr>] \<and>
   modal_sets (startWorkout Monday (push_monday [''A'', ''B''] [''A'', ''B''])) = [[], []]"
proof -
  let ?st = "push_monday [''A'', ''B''] [''A'', ''B'']"
  have t: "schedule ?st Tuesday = []" and m: "schedule ?st Monday = [''A'', ''B'']"
    and a: "alerts ?st = []" and c: "currentWorkoutDay ?st = None"
    by (simp_all add: push_monday_def constructed_def)
  from startWorkout_iff_nonempty [of Tuesday ?st] t
  have r1: "alerts (startWorkout Tuesday ?st) \<noteq> alerts ?st"
    and r2: "startWorkout Tuesday ?st = ?st\<lparr>alerts := alerts ?st @
        [''No exercises defined for this day. Please add exercises first.'']\<rparr>"
    by blast+
  from startWorkout_iff_nonempty [of Monday ?st] m
  have r3: "startWorkout Monday ?st =
        ?st\<lparr>currentWorkoutDay := Some Monday,
           currentWorkoutData := Some (map (\<lambda>ex. \<lparr>name = ex, sets = []\<rparr>) (schedule ?st Monday)),
           modal_sets := replicate (length (schedule ?st Monday)) [],
           modal_displayed := True\<rparr>"
    by simp
  show ?thesis
    using t r1 by (simp add: r2 r3 m a c)
qed

text \<open>
  Claim C10: when \<open>complete()\<close> fails because no row has reps greater than 0, the session
  is not cleared: the day, the per-exercise entries, the rows of the dialog and the
  dialog itself are as before, so that adding a row with positive reps to any exercise
  and completing again stores a record and ends the session. A session is ended only by
  closing the dialog or by a \<open>complete()\<close> that appends a record; no other handler clears
  the session's day.
\<close>

theorem failed_complete_keeps_session:
  "(currentWorkoutDay st = Some d \<and> length (schedule st d) \<le> length (modal_sets st) \<and>
    no_valid_set st \<longrightarrow>
      (\<exists>st'. completeWorkout now st = Inr st' \<and>
         currentWorkoutDay st' = Some d \<and> currentWorkoutData st' = currentWorkoutData st \<and>
         modal_sets st' = modal_sets st \<and> modal_displayed st' = modal_displayed st \<and>
         (\<forall>i w r now'. i < length (schedule st d) \<and> 0 < r \<longrightarrow>
            (\<exists>st'' rec. completeWorkout now'
                 (enterSet i (length (modal_sets st' ! i)) w (Some r) (addSet i st')) = Inr st'' \<and>
               progress st'' = progress st @ [rec] \<and> currentWorkoutDay st'' = None)))) \<and>
   (currentWorkoutDay st = Some d \<and> currentWorkoutDay (exec c st) = None \<longrightarrow>
      c = CloseModal \<or>
      (\<exists>t. c = CompleteWorkout t \<and> length (progress (exec c st)) = Suc (length (progress st)))) \<and>
   currentWorkoutDay (exec CloseModal st) = None"
proof (intro conjI impI)
  assume h: "currentWorkoutDay st = Some d \<and> length (schedule st d) \<le> length (modal_sets st) \<and>
    no_valid_set st"
  let ?st' = "st\<lparr>alerts := alerts st @
                 [''Please log at least one set to complete the workout.'']\<rparr>"
  have r: "completeWorkout now st = Inr ?st'"
    using h by (simp add: completeWorkout_no_valid_set)
  have retry: "\<exists>st'' rec. completeWorkout now'
                 (enterSet i (length (modal_sets ?st' ! i)) w (Some r) (addSet i ?st')) = Inr st'' \<and>
               progress st'' = progress st @ [rec] \<and> currentWorkoutDay st'' = None"
    if "i < length (schedule st d) \<and> 0 < r" for i w and r :: int and now'
    using retry_after_adding_set [of ?st' d i r now' w] h that by simp
  have kept: "currentWorkoutDay ?st' = Some d \<and> currentWorkoutData ?st' = currentWorkoutData st \<and>
         modal_sets ?st' = modal_sets st \<and> modal_displayed ?st' = modal_displayed st"
    using h by simp
  let ?P = "\<lambda>st'. completeWorkout now st = Inr st' \<and>
         currentWorkoutDay st' = Some d \<and> currentWorkoutData st' = currentWorkoutData st \<and>
         modal_sets st' = modal_sets st \<and> modal_displayed st' = modal_displayed st \<and>
         (\<forall>i w r now'. i < length (schedule st d) \<and> 0 < r \<longrightarrow>
            (\<exists>st'' rec. completeWorkout now'
                 (enterSet i (length (modal_sets st' ! i)) w (Some r) (addSet i st')) = Inr st'' \<and>
               progress st'' = progress st @ [rec] \<and> currentWorkoutDay st'' = None))"
  have every: "\<forall>i w r now'. i < length (schedule st d) \<and> 0 < r \<longrightarrow>
            (\<exists>st'' rec. completeWorkout now'
                 (enterSet i (length (modal_sets ?st' ! i)) w (Some r) (addSet i ?st')) = Inr st'' \<and>
               progress st'' = progress st @ [rec] \<and> currentWorkoutDay st'' = None)"
  proof (intro allI impI)
    fix i w and r :: int and now'
    assume "i < length (schedule st d) \<and> 0 < r"
    then show "\<exists>st'' rec. completeWorkout now'
                 (enterSet i (length (modal_sets ?st' ! i)) w (Some r) (addSet i ?st')) = Inr st'' \<and>
               progress st'' = progress st @ [rec] \<and> currentWorkoutDay st'' = None"
      by (rule retry)
  qed
  have "?P ?st'"
    by (intro conjI) (rule r, (rule kept [THEN conjunct1]), (rule kept [THEN conjunct2, THEN conjunct1]),
        (rule kept [THEN conjunct2, THEN conjunct2, THEN conjunct1]),
        (rule kept [THEN conjunct2, THEN conjunct2, THEN conjunct2]), rule every)
  then show "\<exists>st'. ?P st'" by (rule exI [of ?P ?st'])
next
  assume "currentWorkoutDay st = Some d \<and> currentWorkoutDay (exec c st) = None"
  then show "c = CloseModal \<or>
      (\<exists>t. c = CompleteWorkout t \<and> length (progress (exec c st)) = Suc (length (progress st)))"
    using session_kept [of st d c] by blast
next
  show "currentWorkoutDay (exec CloseModal st) = None" by (simp add: closeModal_def)
qed

text \<open>
  The rejected session of above keeps its day and rows; closing the dialog ends it, and
  so does completing Scenario C, which appends a record.
\<close>

theorem failed_complete_keeps_session_witness:
  "currentWorkoutDay scenario_empty = Some Monday \<and>
   length (schedule scenario_empty Monday) \<le> length (modal_sets scenario_empty) \<and>
   no_valid_set scenario_empty \<and>
   (\<exists>st'. completeWorkout ''2024-01-15T10:00:00.000Z'' scenario_empty = Inr st' \<and>
      currentWorkoutDay st' = Some Monday \<and> modal_sets st' = modal_sets scenario_empty) \<and>
   currentWorkoutDay (exec CloseModal scenario_empty) = None \<and>
   currentWorkoutDay scenario_C = Some Monday \<and>
   currentWorkoutDay (exec (CompleteWorkout ''2024-01-15T10:00:00.000Z'') scenario_C) = None \<and>
   length (progress (exec (CompleteWorkout ''2024-01-15T10:00:00.000Z'') scenario_C))
     = Suc (length (progress scenario_C))"
proof -
  let ?now = "''2024-01-15T10:00:00.000Z''"
  have h: "currentWorkoutDay scenario_empty = Some Monday \<and>
           length (schedule scenario_empty Monday) \<le> length (modal_sets scenario_empty) \<and>
           no_valid_set scenario_empty"
    by (simp add: scenario_empty_day scenario_empty_schedule scenario_empty_modal
        scenario_empty_no_valid_set)
  note T1 = failed_complete_keeps_session [of scenario_empty Monday ?now CloseModal]
  from T1 h have r1: "\<exists>st'. completeWorkout ?now scenario_empty = Inr st' \<and>
      currentWorkoutDay st' = Some Monday \<and> modal_sets st' = modal_sets scenario_empty"
    by blast
  from T1 have r2: "currentWorkoutDay (exec CloseModal scenario_empty) = None" by blast
  have c: "currentWorkoutDay (exec (CompleteWorkout ?now) scenario_C) = None"
    by (simp add: completeWorkout_def scenario_C_day scenario_C_schedule scenario_C_modal
        read_row_def closeModal_def Let_def)
  note T2 = failed_complete_keeps_session [of scenario_C Monday ?now "CompleteWorkout ?now"]
  from T2 scenario_C_day c
  have r3: "length (progress (exec (CompleteWorkout ?now) scenario_C))
              = Suc (length (progress scenario_C))"
    by blast
  from h r1 r2 scenario_C_day c r3 show ?thesis by blast
qed

section \<open>Facts about the shuffle\<close>

lemma ilog2_le:
  assumes "0 < x"
  shows "2 powi ilog2 x \<le> x"
proof (cases "1 \<le> x")
  case True
  then have m: "0 < \<lfloor>x\<rfloor>" by simp
  from bitlen_bounds [OF m] have "2 ^ nat (bitlen \<lfloor>x\<rfloor> - 1) \<le> \<lfloor>x\<rfloor>" by simp
  then have "(2::rat) ^ nat (bitlen \<lfloor>x\<rfloor> - 1) \<le> of_int \<lfloor>x\<rfloor>"
    by (metis of_int_le_iff of_int_numeral of_int_power)
  also have "\<dots> \<le> x" by simp
  finally have "(2::rat) ^ nat (bitlen \<lfloor>x\<rfloor> - 1) \<le> x" .
  moreover have "0 \<le> bitlen \<lfloor>x\<rfloor> - 1" using m by (simp add: bitlen_alt_def)
  ultimately show ?thesis using True by (simp add: ilog2_def power_int_def)
next
  case False
  with assms have y: "1 < 1 / x" by simp
  let ?c = "\<lceil>1 / x\<rceil>"
  let ?b = "bitlen (?c - 1)"
  from y have c: "0 < ?c - 1" by linarith
  from bitlen_bounds [OF c] have "?c - 1 < 2 ^ nat ?b" by simp
  then have "?c \<le> 2 ^ nat ?b" by simp
  then have "(of_int ?c :: rat) \<le> 2 ^ nat ?b"
    by (metis of_int_le_iff of_int_numeral of_int_power)
  then have "1 / x \<le> 2 ^ nat ?b" by (meson le_of_int_ceiling order_trans)
  with assms have "1 \<le> 2 ^ nat ?b * x" by (simp add: pos_divide_le_eq)
  then have "inverse 2 ^ nat ?b \<le> x"
    by (simp add: power_inverse inverse_eq_divide pos_divide_le_eq mult.commute power_one_over)
  moreover have "0 \<le> ?b" by (rule bitlen_nonneg)
  ultimately show ?thesis using False
    by (auto simp: ilog2_def power_int_def)
qed







lemma binary64_round_pos:
  "0 < x \<Longrightarrow> binary64_round x = of_int (round_half_even (x / quantum x)) * quantum x"
  by (simp add: binary64_round_def)






text \<open>The two products that round up to an integer: the index drawn is one above the exact floor.\<close>

lemma random_index_rounds_up:
  "random_index (6004799503160661 / 2 ^ 53) 2 = 2 \<and> (6004799503160661 / 2 ^ 53 :: rat) < 2 / 3 \<and>
   random_index (2573485501354569 / 2 ^ 52) 6 = 4 \<and> (2573485501354569 / 2 ^ 52 :: rat) < 4 / 7"
  by code_simp





lemma shuffle_by_length:
  "length (shuffle_by js exs) = length exs"
  by (induction js arbitrary: exs) (simp_all add: Let_def)












lemma workouts_randomizeDay: "workouts (randomizeDay random d st) = workouts st"
  by (simp add: randomizeDay_def Let_def workouts_saveData)


lemma quantum_below_one:
  assumes "0 < x" "x < 1"
  shows "\<exists>m\<ge>53. quantum x = 1 / 2 ^ m"
proof -
  define E where "E = max (ilog2 x) (- 1022)"
  from ilog2_le [OF assms(1)] assms(2) have "(2::rat) powi ilog2 x < 2 powi 0" by simp
  then have "ilog2 x < 0" by (rule power_int_le_imp_less_exp [rotated]) simp_all
  then have E: "E \<le> - 1" by (simp add: E_def)
  then have "quantum x = 1 / 2 ^ nat (52 - E)"
    by (simp add: quantum_def E_def [symmetric] power_int_def power_one_over)
  moreover have "53 \<le> nat (52 - E)" using E by simp
  ultimately show ?thesis by blast
qed

lemma round_half_even_of_int: "round_half_even (of_int K) = K"
  by (simp add: round_half_even_def)

lemma is_binary64_grid:
  assumes "k < 2 ^ 53"
  shows "is_binary64 (of_nat k / 2 ^ 53)"
proof (cases "k = 0")
  case True
  then show ?thesis by (simp add: is_binary64_def binary64_round_def)
next
  case False
  define x :: rat where "x = of_nat k / 2 ^ 53"
  have pos: "0 < x" using False by (simp add: x_def)
  have "(of_nat k :: rat) < of_nat (2 ^ 53)" using assms unfolding of_nat_less_iff .
  then have lt: "x < 1" by (simp add: x_def)
  from quantum_below_one [OF pos lt] obtain m where m: "53 \<le> m" "quantum x = 1 / 2 ^ m"
    by blast
  then obtain d where d: "m = 53 + d" by (metis le_iff_add)
  have "x / quantum x = x * 2 ^ m" by (simp add: m(2))
  also have "\<dots> = of_int (int k * 2 ^ d)" by (simp add: x_def d power_add)
  finally have y: "x / quantum x = of_int (int k * 2 ^ d)" .
  have "binary64_round x = of_int (int k * 2 ^ d) * quantum x"
    by (simp only: binary64_round_pos [OF pos] y round_half_even_of_int)
  also have "\<dots> = x" unfolding m(2) by (simp add: x_def d power_add)
  finally show ?thesis by (simp add: is_binary64_def x_def)
qed

lemma grid_source_valid:
  assumes "k < 2 ^ 53"
  shows "in_unit_interval (grid_source k)"
proof -
  have "(of_nat k :: rat) < of_nat (2 ^ 53)" using assms unfolding of_nat_less_iff .
  then have "(of_nat k / 2 ^ 53 :: rat) < 1" by simp
  moreover have "is_binary64 0" by (simp add: is_binary64_def binary64_round_def)
  ultimately show ?thesis
    using is_binary64_grid [OF assms] by (simp add: in_unit_interval_def grid_source_def)
qed











section \<open>Facts about persistence\<close>

text \<open>
  Claim C9: for every catalog, schedule and progress log, a planner constructed on the
  item that \<open>saveData\<close> wrote holds the same three structures and reports no error; and
  loading within the planner that has just saved changes nothing.
\<close>

theorem load_after_save:
  "workouts (WorkoutPlanner (localStorage (saveData st))) = workouts st \<and>
   schedule (WorkoutPlanner (localStorage (saveData st))) = schedule st \<and>
   progress (WorkoutPlanner (localStorage (saveData st))) = progress st \<and>
   console (WorkoutPlanner (localStorage (saveData st))) = [] \<and>
   loadData (saveData st) = saveData st"
  by (simp add: WorkoutPlanner_def init_def loadData_def saveData_def constructed_def)

text \<open>
  Claim C2, as stated: on a corrupt document \<open>load()\<close> falls back to the same defaults as
  without saved data, seed catalog included. It fails: on a text that does not parse the
  \<open>catch\<close> branch only logs the error, and the catalog stays as the constructor left it,
  empty, while a planner without saved data gets the seed catalog.
\<close>

theorem load_corrupt_counterexample:
  "console (WorkoutPlanner (Some (Unparsable ''{oops''))) = [''Error loading data:''] \<and>
   workouts (WorkoutPlanner (Some (Unparsable ''{oops''))) Push = [] \<and>
   workouts (WorkoutPlanner None) Push =
     [''Bench Press'', ''Overhead Press'', ''Incline Dumbbell Press'', ''Lateral Raises'',
      ''Tricep Dips''] \<and>
   workouts (WorkoutPlanner (Some (Unparsable ''{oops''))) \<noteq> workouts (WorkoutPlanner None)"
proof -
  have a: "workouts (WorkoutPlanner (Some (Unparsable ''{oops''))) Push = []"
    by (simp add: WorkoutPlanner_def init_def loadData_def constructed_def)
  have b: "workouts (WorkoutPlanner None) Push =
     [''Bench Press'', ''Overhead Press'', ''Incline Dumbbell Press'', ''Lateral Raises'',
      ''Tricep Dips'']"
    by (simp add: workouts_first_load default_workouts_def)
  have c: "console (WorkoutPlanner (Some (Unparsable ''{oops''))) = [''Error loading data:'']"
    by (simp add: WorkoutPlanner_def init_def loadData_def constructed_def)
  from a b have "workouts (WorkoutPlanner (Some (Unparsable ''{oops'')))
                 \<noteq> workouts (WorkoutPlanner None)"
    by (metis list.distinct(1))
  with a b c show ?thesis by simp
qed

text \<open>
  Claim C2, amended: for every malformed persisted document other than the empty text
  (a text on which \<open>JSON.parse\<close> raises, or the text \<open>null\<close>), \<open>load()\<close> reports a decode
  error on the console and leaves the planner as the constructor made it: an empty
  catalog for every category, an empty schedule and an empty progress log; the stored
  text is kept. The empty text is handled like missing data: the seed catalog with an
  empty schedule and an empty progress log, saved at once.
\<close>

theorem load_malformed:
  "(malformed item \<and> item \<noteq> Unparsable [] \<longrightarrow>
      WorkoutPlanner (Some item)
        = (constructed (Some item))\<lparr>console := [''Error loading data:'']\<rparr> \<and>
      workouts (WorkoutPlanner (Some item)) = (\<lambda>t. []) \<and>
      schedule (WorkoutPlanner (Some item)) = (\<lambda>d. []) \<and>
      progress (WorkoutPlanner (Some item)) = [] \<and>
      localStorage (WorkoutPlanner (Some item)) = Some item) \<and>
   WorkoutPlanner (Some (Unparsable []))
     = saveData ((constructed (Some (Unparsable [])))\<lparr>workouts := default_workouts\<rparr>) \<and>
   WorkoutPlanner None = saveData ((constructed None)\<lparr>workouts := default_workouts\<rparr>)"
  by (cases item)
     (simp_all add: malformed_def WorkoutPlanner_def init_def loadData_def constructed_def)

text \<open>A text that does not parse, and the text \<open>null\<close>.\<close>

theorem load_malformed_witness:
  "malformed (Unparsable ''{oops'') \<and> Unparsable ''{oops'' \<noteq> Unparsable [] \<and>
   workouts (WorkoutPlanner (Some (Unparsable ''{oops''))) = (\<lambda>t. []) \<and>
   console (WorkoutPlanner (Some (Unparsable ''{oops''))) = [''Error loading data:''] \<and>
   localStorage (WorkoutPlanner (Some (Unparsable ''{oops''))) = Some (Unparsable ''{oops'') \<and>
   malformed ParsesToNull \<and> ParsesToNull \<noteq> Unparsable [] \<and>
   progress (WorkoutPlanner (Some ParsesToNull)) = []"
proof -
  have h1: "malformed (Unparsable ''{oops'') \<and> Unparsable ''{oops'' \<noteq> Unparsable []"
    by (simp add: malformed_def)
  have h2: "malformed ParsesToNull \<and> ParsesToNull \<noteq> Unparsable []"
    by (simp add: malformed_def)
  note T1 = load_malformed [of "Unparsable ''{oops''", THEN conjunct1, rule_format, OF h1]
  note T2 = load_malformed [of ParsesToNull, THEN conjunct1, rule_format, OF h2]
  have c: "console (WorkoutPlanner (Some (Unparsable ''{oops''))) = [''Error loading data:'']"
    unfolding T1 [THEN conjunct1] by simp
  from h1 h2 T1 T2 c show ?thesis by (simp add: constructed_def)
qed

end
